theory Spec2Isabelle
  imports Complex_Main
begin

section \<open>The upload widget: \<open>components/ui/file-upload.tsx\<close>\<close>

subsection \<open>Data\<close>

text \<open>
  A browser \<open>File\<close>: the widget reads its name and its size in bytes (a non-negative
  integer).
\<close>

record File =
  file_name :: string
  file_size :: nat

text \<open>
  What the drop-zone library hands to \<open>onDrop\<close> for a file it refused: the file and a list
  of errors, each with a code.
\<close>

record FileError =
  code :: string
  message :: string

record FileRejection =
  rejected_file :: File
  errors :: "FileError list"

datatype upload_status = Idle | Uploading | Success | Error

text \<open>
  The component state (the four \<open>useState\<close> cells), and the intervals that \<open>onDrop\<close> has
  started and that are still live. Each interval owns the local variable \<open>progress\<close> of
  the \<open>onDrop\<close> call that created it and the file that call captured.
\<close>

record upload_state =
  selectedFile :: "File option"
  uploadProgress :: real
  uploadStatus :: upload_status
  errorMessage :: string
  intervals :: "(real \<times> File) list"

datatype callback = OnFileSelect File | OnFileRemove

subsection \<open>\<open>onDrop\<close>\<close>

text \<open>
  The message chosen for the first rejection. \<open>num_str\<close> stands for JavaScript's
  conversion of a number to a string inside the template literal; it belongs to the
  language, not to the repository, and is a parameter.
\<close>

definition onDrop_errorMessage :: "(real \<Rightarrow> string) \<Rightarrow> nat \<Rightarrow> FileRejection \<Rightarrow> string" where
  "onDrop_errorMessage num_str maxSize rejection =
     (if list_ex (\<lambda>e. code e = ''file-too-large'') (errors rejection)
      then ''File is too large. Maximum size is '' @ num_str (real maxSize / 1024 / 1024) @ ''MB''
      else if list_ex (\<lambda>e. code e = ''file-invalid-type'') (errors rejection)
      then ''Invalid file type. Please upload a PDF file.''
      else ''File upload failed. Please try again.'')"

definition onDrop ::
  "(real \<Rightarrow> string) \<Rightarrow> nat \<Rightarrow> File list \<Rightarrow> FileRejection list \<Rightarrow> upload_state \<Rightarrow> upload_state" where
  "onDrop num_str maxSize acceptedFiles rejectedFiles s =
     (case rejectedFiles of
        rejection # _ \<Rightarrow>
          s\<lparr>errorMessage := onDrop_errorMessage num_str maxSize rejection,
            uploadStatus := Error\<rparr>
      | [] \<Rightarrow>
          (case acceptedFiles of
             file # _ \<Rightarrow>
               s\<lparr>selectedFile := Some file, uploadStatus := Uploading, errorMessage := [],
                 intervals := intervals s @ [(0, file)]\<rparr>
           | [] \<Rightarrow> s))"

text \<open>
  One firing of the \<open>n\<close>-th live interval; \<open>r\<close> is the value \<open>Math.random()\<close> returns.
  The progress is a JavaScript number, modelled as a real.
\<close>

definition interval_tick :: "nat \<Rightarrow> real \<Rightarrow> upload_state \<Rightarrow> upload_state \<times> callback list" where
  "interval_tick n r s =
     (if n < length (intervals s) then
        (let (progress0, file) = intervals s ! n;
             progress1 = progress0 + r * 30
         in if progress1 \<ge> 100
            then (s\<lparr>uploadStatus := Success, uploadProgress := 100,
                    intervals := take n (intervals s) @ drop (Suc n) (intervals s)\<rparr>,
                  [OnFileSelect file])
            else (s\<lparr>uploadProgress := progress1,
                    intervals := (intervals s)[n := (progress1, file)]\<rparr>, []))
      else (s, []))"

text \<open>
  The drop zone is rendered only while no file is selected, and the library ignores
  drops while its \<open>disabled\<close> option holds.
\<close>

definition drop_event ::
  "(real \<Rightarrow> string) \<Rightarrow> nat \<Rightarrow> bool \<Rightarrow> File list \<Rightarrow> FileRejection list \<Rightarrow> upload_state \<Rightarrow> upload_state" where
  "drop_event num_str maxSize disabled acceptedFiles rejectedFiles s =
     (if selectedFile s \<noteq> None \<or> disabled \<or> uploadStatus s = Uploading then s
      else onDrop num_str maxSize acceptedFiles rejectedFiles s)"

subsection \<open>\<open>removeFile\<close>\<close>

definition removeFile :: "upload_state \<Rightarrow> upload_state \<times> callback list" where
  "removeFile s =
     (s\<lparr>selectedFile := None, uploadProgress := 0, uploadStatus := Idle, errorMessage := []\<rparr>,
      [OnFileRemove])"

text \<open>
  The remove button is rendered only while a file is selected, and is disabled while the
  status is \<open>uploading\<close>.
\<close>

definition remove_button_click :: "upload_state \<Rightarrow> upload_state \<times> callback list" where
  "remove_button_click s =
     (if selectedFile s = None \<or> uploadStatus s = Uploading then (s, []) else removeFile s)"

subsection \<open>\<open>formatFileSize\<close>\<close>

definition sizes :: "string list" where
  "sizes = [''Bytes'', ''KB'', ''MB'', ''GB'']"

text \<open>
  \<open>Math.floor(Math.log(bytes) / Math.log(k))\<close> for \<open>k = 1024\<close> and \<open>bytes \<ge> 1\<close>: the
  exact integer logarithm. (The quotient of the two double-precision logarithms has the
  same floor for every size below \<open>2 ^ 49\<close>: it is exact at the powers of 1024, and
  elsewhere its distance to the next integer is far above the rounding error.)
\<close>

fun floor_log_k :: "nat \<Rightarrow> nat" where
  "floor_log_k bytes = (if bytes < 1024 then 0 else Suc (floor_log_k (bytes div 1024)))"

declare floor_log_k.simps [simp del]

definition digit :: "nat \<Rightarrow> char" where
  "digit d = ''0123456789'' ! d"

fun string_of_nat :: "nat \<Rightarrow> string" where
  "string_of_nat n =
     (if n < 10 then [digit n] else string_of_nat (n div 10) @ [digit (n mod 10)])"

declare string_of_nat.simps [simp del]

text \<open>
  \<open>(bytes / d).toFixed(2)\<close>, as a number of hundredths. The division by a power of two
  is exact on doubles, and \<open>toFixed\<close> picks the integer \<open>n\<close> with \<open>n / 100\<close> nearest to the
  value, the larger one on a tie.
\<close>

definition toFixed2 :: "nat \<Rightarrow> nat \<Rightarrow> nat" where
  "toFixed2 bytes d = (200 * bytes + d) div (2 * d)"

text \<open>
  \<open>parseFloat(...)\<close> of that decimal, converted back to a string by \<open>+ ' '\<close>: the
  shortest decimal of the value, so trailing zeros of the fraction are gone.
\<close>

definition parseFloat_string :: "nat \<Rightarrow> string" where
  "parseFloat_string h =
     string_of_nat (h div 100) @
       (if h mod 100 = 0 then []
        else ''.'' @ [digit (h mod 100 div 10)] @
          (if h mod 10 = 0 then [] else [digit (h mod 10)]))"

text \<open>An index past the end of a JavaScript array reads \<open>undefined\<close>.\<close>

definition formatFileSize :: "nat \<Rightarrow> string" where
  "formatFileSize bytes =
     (if bytes = 0 then ''0 Bytes''
      else let k = 1024; i = floor_log_k bytes in
        parseFloat_string (toFixed2 bytes (k ^ i)) @ '' '' @
          (if i < length sizes then sizes ! i else ''undefined''))"


subsection \<open>The rejection reasons, as the specification names them\<close>

text \<open>
  The source has no type of reasons: \<open>onDrop\<close> goes from the error codes to the message
  in one step. The specification splits the step in two, a reason out of a closed
  enumeration (size first, then type, else other) and a message for each reason. These
  two definitions follow the specification; \<open>onDrop_errorMessage\<close> above follows the
  source.
\<close>

datatype rejection_reason = TooLarge | InvalidType | Other

definition reason_of :: "FileRejection \<Rightarrow> rejection_reason" where
  "reason_of rejection =
     (if list_ex (\<lambda>e. code e = ''file-too-large'') (errors rejection) then TooLarge
      else if list_ex (\<lambda>e. code e = ''file-invalid-type'') (errors rejection) then InvalidType
      else Other)"

fun reason_message :: "(real \<Rightarrow> string) \<Rightarrow> nat \<Rightarrow> rejection_reason \<Rightarrow> string" where
  "reason_message num_str maxSize TooLarge =
     ''File is too large. Maximum size is '' @ num_str (real maxSize / 1024 / 1024) @ ''MB''"
| "reason_message num_str maxSize InvalidType = ''Invalid file type. Please upload a PDF file.''"
| "reason_message num_str maxSize Other = ''File upload failed. Please try again.''"

section \<open>The analysis flow: \<open>components/ResumeAnalyzer.tsx\<close>\<close>

subsection \<open>Data\<close>

text \<open>
  A value that \<open>response.json()\<close> can yield: any JSON value. The interfaces
  \<open>AnalysisObject\<close> and \<open>AnalysisResult\<close> of the source are compile-time annotations only;
  \<open>startAnalysis\<close> checks nothing of the value it receives (\<open>errorData\<close> has type \<open>any\<close>).
  The members of an object are kept in the order of the document.
\<close>

datatype json_value =
    JNull
  | JBool bool
  | JNumber real
  | JString string
  | JArray "json_value list"
  | JObject "(string \<times> json_value) list"

text \<open>
  What the JavaScript engine contributes and the repository does not define: the
  conversion of a number to a string, and the message of the \<open>TypeError\<close> raised by
  reading a property of \<open>null\<close>.
\<close>

record js_engine =
  number_string :: "real \<Rightarrow> string"
  null_read_message :: string

text \<open>The operand test of \<open>||\<close>: \<open>null\<close>, \<open>false\<close>, \<open>0\<close> and the empty string are falsy.\<close>

fun truthy :: "json_value \<Rightarrow> bool" where
  "truthy JNull = False"
| "truthy (JBool b) = b"
| "truthy (JNumber n) = (n \<noteq> 0)"
| "truthy (JString str) = (str \<noteq> [])"
| "truthy (JArray _) = True"
| "truthy (JObject _) = True"

fun join_comma :: "string list \<Rightarrow> string" where
  "join_comma [] = []"
| "join_comma [x] = x"
| "join_comma (x # y # ys) = x @ '','' @ join_comma (y # ys)"

text \<open>
  The string conversion that \<open>new Error(...)\<close> applies to its argument: an array is the
  join of its elements (\<open>null\<close> elements as empty strings), a plain object is
  \<open>[object Object]\<close>.
\<close>

fun to_string :: "js_engine \<Rightarrow> json_value \<Rightarrow> string" where
  "to_string engine JNull = ''null''"
| "to_string engine (JBool b) = (if b then ''true'' else ''false'')"
| "to_string engine (JNumber n) = number_string engine n"
| "to_string engine (JString str) = str"
| "to_string engine (JArray xs) =
     join_comma (map (\<lambda>x. if x = JNull then [] else to_string engine x) xs)"
| "to_string engine (JObject _) = ''[object Object]''"

text \<open>
  \<open>errorData.error\<close> for a value other than \<open>null\<close>: the member of an object (the last
  one of that name in the document), and \<open>undefined\<close> (here \<open>None\<close>) when the object has no
  such member or the value is not an object.
\<close>

fun error_member :: "json_value \<Rightarrow> json_value option" where
  "error_member (JObject members) = map_of (rev members) ''error''"
| "error_member _ = None"

text \<open>
  \<open>response.json()\<close> either rejects with an exception (its message is kept) or yields
  the parsed value. \<open>fetch\<close> either rejects with an exception (no response) or yields
  a response with its \<open>ok\<close> flag.
\<close>

datatype body = Unparseable string | Parsed json_value

datatype fetch_outcome = NetworkError string | Response bool body

datatype job_mode = Description | Profile

text \<open>
  The component state: the \<open>useState\<close> cells, the \<open>intervalRef\<close> slot, and the browser's
  table of live interval timers with the next id it hands out. The cell
  \<open>analysisResult\<close> holds \<open>null\<close> (\<open>JNull\<close>) or the value stored by \<open>setAnalysisResult\<close>.
\<close>

record analyzer_state =
  "file" :: "File option"
  jobMode :: job_mode
  selectedProfile :: string
  jobDescription :: string
  isAnalyzing :: bool
  analysisResult :: json_value
  isLoading :: bool
  progress :: int
  intervalRef :: "nat option"
  timers :: "nat list"
  nextTimer :: nat

datatype effect = Alert string | Fetch File string | SetTimeout nat

definition clearInterval :: "nat option \<Rightarrow> nat list \<Rightarrow> nat list" where
  "clearInterval ref ts = (case ref of None \<Rightarrow> ts | Some t \<Rightarrow> removeAll t ts)"

subsection \<open>Event handlers\<close>

definition handleFileChange :: "File list \<Rightarrow> analyzer_state \<Rightarrow> analyzer_state" where
  "handleFileChange files s = (case files of f # _ \<Rightarrow> s\<lparr>file := Some f\<rparr> | [] \<Rightarrow> s)"

text \<open>\<open>startAnalysis\<close> up to its \<open>await fetch(...)\<close>.\<close>

definition startAnalysis :: "analyzer_state \<Rightarrow> analyzer_state \<times> effect list" where
  "startAnalysis s =
     (case file s of
        None \<Rightarrow> (s, [Alert ''Please upload a resume first.''])
      | Some f \<Rightarrow>
          (let description = (if jobMode s = Profile then selectedProfile s else jobDescription s);
               t = nextTimer s
           in (s\<lparr>isAnalyzing := True, analysisResult := JNull, isLoading := True, progress := 0,
                 intervalRef := Some t, timers := t # timers s, nextTimer := Suc t\<rparr>,
               [Fetch f description])))"

text \<open>
  One firing of interval \<open>t\<close>: the updater passed to \<open>setProgress\<close>, with \<open>r\<close> the value
  \<open>Math.random()\<close> returns. A cleared interval does not fire.
\<close>

definition progress_tick :: "nat \<Rightarrow> real \<Rightarrow> analyzer_state \<Rightarrow> analyzer_state" where
  "progress_tick t r s =
     (if t \<in> set (timers s) then
        (let prev = progress s in
           if prev \<ge> 95
           then s\<lparr>progress := 95, timers := clearInterval (intervalRef s) (timers s)\<rparr>
           else s\<lparr>progress := prev + (if prev < 95 then \<lfloor>r * 10\<rfloor> else 1)\<rparr>)
      else s)"

definition catch_block :: "string \<Rightarrow> analyzer_state \<Rightarrow> analyzer_state \<times> effect list" where
  "catch_block msg s =
     (s\<lparr>timers := clearInterval (intervalRef s) (timers s), isLoading := False, progress := 0\<rparr>,
      [Alert (''Error: '' @ msg)])"

definition finally_block :: "analyzer_state \<Rightarrow> analyzer_state" where
  "finally_block s = s\<lparr>isAnalyzing := False\<rparr>"

text \<open>
  \<open>startAnalysis\<close> from the point where \<open>fetch\<close> settles. On a response that is not
  \<open>ok\<close>, \<open>errorData.error\<close> throws when \<open>errorData\<close> is \<open>null\<close>; otherwise
  \<open>errorData.error || "..."\<close> takes the member when it is truthy and the fallback when
  it is absent or falsy, and \<open>new Error\<close> converts what it is given to a string.
\<close>

definition startAnalysis_resume ::
  "js_engine \<Rightarrow> fetch_outcome \<Rightarrow> analyzer_state \<Rightarrow> analyzer_state \<times> effect list" where
  "startAnalysis_resume engine outcome s =
     (let (s', es) =
        (case outcome of
           NetworkError msg \<Rightarrow> catch_block msg s
         | Response ok b \<Rightarrow>
             if \<not> ok then
               (case b of
                  Unparseable msg \<Rightarrow> catch_block msg s
                | Parsed errorData \<Rightarrow>
                    if errorData = JNull then catch_block (null_read_message engine) s
                    else
                      catch_block
                        (case error_member errorData of
                           Some e \<Rightarrow>
                             if truthy e then to_string engine e
                             else ''Failed to analyze resume''
                         | None \<Rightarrow> ''Failed to analyze resume'') s)
             else
               (case b of
                  Unparseable msg \<Rightarrow> catch_block msg s
                | Parsed data \<Rightarrow>
                    (s\<lparr>analysisResult := data,
                       timers := clearInterval (intervalRef s) (timers s),
                       progress := 100\<rparr>,
                     [SetTimeout 500])))
      in (finally_block s', es))"

text \<open>The callback of the 500 ms timeout.\<close>

definition timeout_callback :: "analyzer_state \<Rightarrow> analyzer_state" where
  "timeout_callback s = s\<lparr>isLoading := False\<rparr>"

text \<open>The button that calls \<open>startAnalysis\<close> has \<open>disabled={isAnalyzing || !file}\<close>.\<close>

definition button_click :: "analyzer_state \<Rightarrow> analyzer_state \<times> effect list" where
  "button_click s = (if isAnalyzing s \<or> file s = None then (s, []) else startAnalysis s)"

text \<open>A run of ticks of the interval held in \<open>intervalRef\<close>, one random value per tick.\<close>

fun run_ticks :: "real list \<Rightarrow> analyzer_state \<Rightarrow> analyzer_state" where
  "run_ticks [] s = s"
| "run_ticks (r # rs) s =
     run_ticks rs (case intervalRef s of None \<Rightarrow> s | Some t \<Rightarrow> progress_tick t r s)"

subsection \<open>Sample values\<close>

definition resume_pdf :: File where
  "resume_pdf = \<lparr>file_name = ''resume.pdf'', file_size = 2097152\<rparr>"

definition other_pdf :: File where
  "other_pdf = \<lparr>file_name = ''other.pdf'', file_size = 4096\<rparr>"

definition initial_state :: analyzer_state where
  "initial_state =
     \<lparr>file = None, jobMode = Profile, selectedProfile = ''Frontend Developer'',
      jobDescription = [], isAnalyzing = False, analysisResult = JNull, isLoading = False,
      progress = 0, intervalRef = None, timers = [], nextTimer = 1\<rparr>"

definition in_flight :: analyzer_state where
  "in_flight = fst (button_click (handleFileChange [resume_pdf] initial_state))"

definition sample_result :: json_value where
  "sample_result =
     JObject
       [(''parsed'', JObject []),
        (''analysis'',
           JObject
             [(''strengths'', JArray [JString ''React'']),
              (''improvements'', JArray [JString ''Testing'']),
              (''matching_qualifications'', JString ''TypeScript''),
              (''missing_requirements'', JString ''GraphQL''),
              (''final_assessment'', JString ''Good fit'')]),
        (''score'', JNumber 87),
        (''suggestions'', JString ''Add metrics''),
        (''roadmap'', JString ''Learn GraphQL'')]"

definition sample_engine :: js_engine where
  "sample_engine =
     \<lparr>number_string = (\<lambda>x. if x = 7 then ''7'' else ''0''),
      null_read_message = ''errorData is null''\<rparr>"

definition initial_upload :: upload_state where
  "initial_upload =
     \<lparr>selectedFile = None, uploadProgress = 0, uploadStatus = Idle, errorMessage = [],
      intervals = []\<rparr>"

definition uploading :: upload_state where
  "uploading = drop_event (\<lambda>x. ''10'') 10485760 False [resume_pdf] [] initial_upload"

text \<open>Four ticks with \<open>Math.random()\<close> at 0.9 (27, 54, 81, 108) complete the upload.\<close>

definition uploaded :: upload_state where
  "uploaded =
     fst (interval_tick 0 0.9 (fst (interval_tick 0 0.9 (fst (interval_tick 0 0.9
       (fst (interval_tick 0 0.9 uploading)))))))"

section \<open>Facts about the upload widget\<close>

text \<open>
  \<open>floor_log_k\<close> is the integer part of the logarithm to base 1024: a bound on the
  size bounds the index, and the index brackets the size between two consecutive
  powers of 1024.
\<close>

lemma floor_log_k_upper: "bytes < 1024 ^ Suc m \<Longrightarrow> floor_log_k bytes \<le> m"
proof (induction m arbitrary: bytes)
  case 0
  then show ?case by (simp add: floor_log_k.simps)
next
  case (Suc m)
  show ?case
  proof (cases "bytes < 1024")
    case True
    then show ?thesis by (simp add: floor_log_k.simps)
  next
    case False
    from Suc.prems have "bytes div 1024 < 1024 ^ Suc m"
      by (simp add: less_mult_imp_div_less)
    then have "floor_log_k (bytes div 1024) \<le> m" by (rule Suc.IH)
    with False show ?thesis by (simp add: floor_log_k.simps)
  qed
qed

lemma floor_log_k_bounds:
  "0 < bytes \<Longrightarrow> 1024 ^ floor_log_k bytes \<le> bytes \<and> bytes < 1024 ^ Suc (floor_log_k bytes)"
proof (induction bytes rule: floor_log_k.induct)
  case (1 bytes)
  show ?case
  proof (cases "bytes < 1024")
    case True
    with "1.prems" show ?thesis by (simp add: floor_log_k.simps)
  next
    case False
    then have pos: "0 < bytes div 1024" by (simp add: div_greater_zero_iff)
    from "1.IH" [OF False pos]
    have lo: "1024 ^ floor_log_k (bytes div 1024) \<le> bytes div 1024"
      and hi: "bytes div 1024 < 1024 ^ Suc (floor_log_k (bytes div 1024))" by simp_all
    have eq: "floor_log_k bytes = Suc (floor_log_k (bytes div 1024))"
      using False by (simp add: floor_log_k.simps)
    from lo have "1024 * 1024 ^ floor_log_k (bytes div 1024) \<le> 1024 * (bytes div 1024)"
      by simp
    also have "\<dots> \<le> bytes" by simp
    finally have a: "1024 ^ floor_log_k bytes \<le> bytes" by (simp add: eq)
    from hi have "Suc (bytes div 1024) \<le> 1024 ^ Suc (floor_log_k (bytes div 1024))"
      by simp
    then have "1024 * Suc (bytes div 1024) \<le> 1024 * 1024 ^ Suc (floor_log_k (bytes div 1024))"
      by (rule mult_le_mono2)
    moreover have "bytes < 1024 * Suc (bytes div 1024)"
      using dividend_less_times_div [of 1024 bytes] by simp
    ultimately have b: "bytes < 1024 ^ Suc (floor_log_k bytes)" by (simp add: eq)
    from a b show ?thesis by simp
  qed
qed

lemmas format_defs =
  formatFileSize_def toFixed2_def parseFloat_string_def sizes_def digit_def Let_def
  floor_log_k.simps string_of_nat.simps

text \<open>
  C8, as the code has it. For a file of exactly 1,048,576 bytes \<open>formatFileSize\<close> returns
  \<open>1 MB\<close>: the unit is the binary one (1024-based), and the number is rounded to two
  decimals by \<open>toFixed(2)\<close> and then passed through \<open>parseFloat\<close>, which drops the
  trailing zeros of \<open>1.00\<close>.
\<close>

theorem formatFileSize_one_mebibyte: "formatFileSize 1048576 = ''1 MB''"
  by (simp add: format_defs)

text \<open>The string the specification expects for that size is not what is returned.\<close>

theorem formatFileSize_one_mebibyte_counterexample: "formatFileSize 1048576 \<noteq> ''1.00 MB''"
  by (simp add: format_defs)

text \<open>
  C10. \<open>formatFileSize\<close> returns \<open>0 Bytes\<close> for 0 (the branch taken before any logarithm),
  and for every non-empty file that the drop zone accepted under a \<open>maxSize\<close> of at most
  10 GB (so its size is at most \<open>maxSize\<close>) the unit index is at most 3 and inside the
  array \<open>sizes\<close>, so the result ends with one of the four unit names.
\<close>

theorem formatFileSize_index_in_bounds:
  "formatFileSize 0 = ''0 Bytes'' \<and>
   (\<forall>bytes maxSize. 0 < bytes \<and> bytes \<le> maxSize \<and> maxSize \<le> 10 * 1024 ^ 3 \<longrightarrow>
      floor_log_k bytes \<le> 3 \<and> floor_log_k bytes < length sizes \<and>
      formatFileSize bytes =
        parseFloat_string (toFixed2 bytes (1024 ^ floor_log_k bytes)) @ '' '' @
          sizes ! floor_log_k bytes)"
proof (intro conjI allI impI)
  show "formatFileSize 0 = ''0 Bytes''" by (simp add: formatFileSize_def)
next
  fix bytes maxSize :: nat
  assume h: "0 < bytes \<and> bytes \<le> maxSize \<and> maxSize \<le> 10 * 1024 ^ 3"
  then have "bytes < 1024 ^ Suc 3" by simp
  then show le: "floor_log_k bytes \<le> 3" by (rule floor_log_k_upper)
  then show lt: "floor_log_k bytes < length sizes" by (simp add: sizes_def)
  from h lt show "formatFileSize bytes =
      parseFloat_string (toFixed2 bytes (1024 ^ floor_log_k bytes)) @ '' '' @
        sizes ! floor_log_k bytes"
    by (simp add: formatFileSize_def Let_def)
qed

theorem formatFileSize_index_in_bounds_witness:
  "floor_log_k 2097152 \<le> 3 \<and> floor_log_k 2097152 < length sizes \<and>
   formatFileSize 2097152 = ''2 MB''"
proof -
  have h: "0 < (2097152::nat) \<and> (2097152::nat) \<le> 10485760 \<and> (10485760::nat) \<le> 10 * 1024 ^ 3"
    by simp
  from formatFileSize_index_in_bounds [THEN conjunct2, rule_format, OF h]
  show ?thesis by (simp add: format_defs)
qed


section \<open>Facts about the intake of a dropped file\<close>

text \<open>
  C6. For a rejected file \<open>onDrop\<close> reports one reason of the three: the message it sets
  is the message of \<open>reason_of\<close>, which is \<open>TooLarge\<close> whenever a size error is present,
  \<open>InvalidType\<close> when there is none but a type error is present, and \<open>Other\<close> otherwise. The
  three messages differ from one another, and the one of \<open>TooLarge\<close> carries the
  configured limit (\<open>maxSize / 1024 / 1024\<close>, followed by \<open>MB\<close>). Only the first rejection
  is looked at, and the status becomes \<open>error\<close>.
\<close>

theorem onDrop_rejection_reason:
  "onDrop_errorMessage num_str maxSize rejection =
     reason_message num_str maxSize (reason_of rejection) \<and>
   (reason_of rejection = TooLarge) =
     list_ex (\<lambda>e. code e = ''file-too-large'') (errors rejection) \<and>
   (reason_of rejection = InvalidType) =
     (\<not> list_ex (\<lambda>e. code e = ''file-too-large'') (errors rejection) \<and>
      list_ex (\<lambda>e. code e = ''file-invalid-type'') (errors rejection)) \<and>
   (reason_of rejection = Other) =
     (\<not> list_ex (\<lambda>e. code e = ''file-too-large'') (errors rejection) \<and>
      \<not> list_ex (\<lambda>e. code e = ''file-invalid-type'') (errors rejection)) \<and>
   reason_message num_str maxSize TooLarge \<noteq> reason_message num_str maxSize InvalidType \<and>
   reason_message num_str maxSize TooLarge \<noteq> reason_message num_str maxSize Other \<and>
   reason_message num_str maxSize InvalidType \<noteq> reason_message num_str maxSize Other \<and>
   reason_message num_str maxSize TooLarge =
     ''File is too large. Maximum size is '' @ num_str (real maxSize / 1024 / 1024) @ ''MB'' \<and>
   errorMessage (onDrop num_str maxSize acceptedFiles (rejection # others) s) =
     reason_message num_str maxSize (reason_of rejection) \<and>
   uploadStatus (onDrop num_str maxSize acceptedFiles (rejection # others) s) = Error"
  by (simp add: onDrop_errorMessage_def reason_of_def onDrop_def)

theorem onDrop_rejection_reason_witness:
  "onDrop_errorMessage (\<lambda>x. ''10'') 10485760
     \<lparr>rejected_file = \<lparr>file_name = ''scan.png'', file_size = 15728640\<rparr>,
      errors = [\<lparr>code = ''file-invalid-type'', message = ''type''\<rparr>,
                \<lparr>code = ''file-too-large'', message = ''size''\<rparr>]\<rparr>
   = ''File is too large. Maximum size is 10MB''"
  using onDrop_rejection_reason [of "\<lambda>x. ''10''" 10485760
      "\<lparr>rejected_file = \<lparr>file_name = ''scan.png'', file_size = 15728640\<rparr>,
        errors = [\<lparr>code = ''file-invalid-type'', message = ''type''\<rparr>,
                  \<lparr>code = ''file-too-large'', message = ''size''\<rparr>]\<rparr>"]
  by (simp add: reason_of_def)


section \<open>Facts about the analysis flow\<close>

text \<open>
  C9. When no file is selected, \<open>startAnalysis\<close> only shows the alert: the state (flags,
  progress, result, timers) is the one before the call, and no request is issued.
\<close>

theorem startAnalysis_without_file:
  "file s = None \<Longrightarrow> startAnalysis s = (s, [Alert ''Please upload a resume first.''])"
  by (simp add: startAnalysis_def)

theorem startAnalysis_without_file_witness:
  "file initial_state = None \<and>
   startAnalysis initial_state = (initial_state, [Alert ''Please upload a resume first.''])"
  using startAnalysis_without_file [of initial_state] by (simp add: initial_state_def)

lemma in_flight_eq:
  "in_flight =
     \<lparr>file = Some resume_pdf, jobMode = Profile, selectedProfile = ''Frontend Developer'',
      jobDescription = [], isAnalyzing = True, analysisResult = JNull, isLoading = True,
      progress = 0, intervalRef = Some 1, timers = [1], nextTimer = 2\<rparr>"
  by (simp add: in_flight_def button_click_def handleFileChange_def initial_state_def
      startAnalysis_def)

lemma floor_random_range: "0 \<le> r \<Longrightarrow> r < 1 \<Longrightarrow> 0 \<le> \<lfloor>r * 10\<rfloor> \<and> \<lfloor>r * 10\<rfloor> \<le> 9"
  for r :: real
proof
  assume "0 \<le> r" then show "0 \<le> \<lfloor>r * 10\<rfloor>" by simp
next
  assume "r < 1"
  then have "r * 10 < 10" by simp
  then have "\<lfloor>r * 10\<rfloor> < 10" by (simp add: floor_less_iff)
  then show "\<lfloor>r * 10\<rfloor> \<le> 9" by simp
qed

text \<open>
  What a tick of the analysis flow does: from a value below 95 it adds an increment
  between 0 and 9, with no clamp on the sum; from 95 or more it sets 95.
\<close>

lemma progress_tick_below_95:
  assumes "0 \<le> r" "r < 1" "t \<in> set (timers s)" "progress s < 95"
  shows "progress s \<le> progress (progress_tick t r s) \<and>
         progress (progress_tick t r s) \<le> progress s + 9"
  using assms floor_random_range [of r] by (simp add: progress_tick_def Let_def)

lemma progress_tick_from_95:
  "t \<in> set (timers s) \<Longrightarrow> 95 \<le> progress s \<Longrightarrow> progress (progress_tick t r s) = 95"
  by (simp add: progress_tick_def Let_def)

text \<open>
  A tick of the upload widget never lowers the value it shows and never passes 100
  (here the interval's local variable and the displayed value agree, as they do from
  \<open>onDrop\<close> on).
\<close>

lemma interval_tick_monotone:
  assumes "0 \<le> r" "n < length (intervals s)" "fst (intervals s ! n) = uploadProgress s"
    "uploadProgress s \<le> 100"
  shows "uploadProgress s \<le> uploadProgress (fst (interval_tick n r s)) \<and>
         uploadProgress (fst (interval_tick n r s)) \<le> 100"
  using assms by (cases "intervals s ! n") (simp add: interval_tick_def Let_def)

text \<open>
  C1, evaluated on the code. The request is outstanding (\<open>isAnalyzing\<close> holds, no
  response has been handled) and the interval fires twelve times, \<open>Math.random()\<close>
  returning 0.95 ten times, then 0.45, then 0.95: the progress value goes 9, 18, ..., 90,
  94 and then 103. The test against 95 is made on the value before the increment is
  added, so a tick from 86..94 can pass 95, and 100.
\<close>

theorem progress_passes_95_while_outstanding:
  "progress (run_ticks [0.95, 0.95, 0.95, 0.95, 0.95, 0.95, 0.95, 0.95, 0.95, 0.95, 0.45, 0.95]
     in_flight) = 103 \<and>
   isAnalyzing (run_ticks [0.95, 0.95, 0.95, 0.95, 0.95, 0.95, 0.95, 0.95, 0.95, 0.95, 0.45, 0.95]
     in_flight)"
  by (simp add: in_flight_eq progress_tick_def clearInterval_def Let_def)

text \<open>
  C2, evaluated on the code. In the same run the next tick lowers the value: it finds
  103, which is at least 95, and sets 95.
\<close>

theorem progress_tick_lowers_value:
  "progress (run_ticks [0.95, 0.95, 0.95, 0.95, 0.95, 0.95, 0.95, 0.95, 0.95, 0.95, 0.45, 0.95]
     in_flight) = 103 \<and>
   progress (run_ticks [0.95, 0.95, 0.95, 0.95, 0.95, 0.95, 0.95, 0.95, 0.95, 0.95, 0.45, 0.95, 0.5]
     in_flight) = 95"
  by (simp add: in_flight_eq progress_tick_def clearInterval_def Let_def)

lemma cleared_timer_not_live:
  "intervalRef s = Some t \<Longrightarrow> t \<notin> set (clearInterval (intervalRef s) (timers s))"
  by (simp add: clearInterval_def)

text \<open>
  C3, as the code has it. While a submission is in flight (\<open>isAnalyzing\<close> holds) the
  button that submits is disabled: a click on it changes nothing in the state and has
  no effect at all, neither a request nor an alert or error.
\<close>

theorem button_click_while_analyzing:
  "isAnalyzing s \<Longrightarrow> button_click s = (s, [])"
  by (simp add: button_click_def)

theorem button_click_while_analyzing_witness:
  "isAnalyzing in_flight \<and> button_click in_flight = (in_flight, [])"
proof -
  have h: "isAnalyzing in_flight" by (simp add: in_flight_eq)
  from h button_click_while_analyzing [OF h] show ?thesis by simp
qed

text \<open>
  The second submission is not rejected with an error. Through the button it is
  ignored without any report; \<open>startAnalysis\<close> itself has no guard and, called while a
  request is in flight, issues a second request and starts a second timer.
\<close>

theorem concurrent_submission_counterexample:
  "isAnalyzing in_flight \<and>
   snd (button_click in_flight) = [] \<and>
   snd (startAnalysis in_flight) = [Fetch resume_pdf ''Frontend Developer''] \<and>
   timers (fst (startAnalysis in_flight)) = [2, 1]"
  by (simp add: in_flight_eq button_click_def startAnalysis_def)




text \<open>
  C5, as the code has it. For a 2xx response whose body parses as JSON, \<open>startAnalysis\<close>
  stores the parsed value as it is, clears the timer held in \<open>intervalRef\<close> (its later
  ticks change nothing), sets the progress to 100 and schedules one timeout of 500 ms.
  \<open>isLoading\<close> is left as it was at that moment; it is the callback of the timeout that
  clears it. (\<open>isAnalyzing\<close> is cleared at once, by the \<open>finally\<close> block.) A 2xx response
  whose body does not parse is handled as a failure: the alert shows the message of the
  parser's exception, the progress is reset to 0, the flags are cleared and no result is
  stored.
\<close>

theorem success_handling:
  "startAnalysis_resume engine (Response True (Parsed data)) s =
     (s\<lparr>analysisResult := data, timers := clearInterval (intervalRef s) (timers s),
        progress := 100, isAnalyzing := False\<rparr>, [SetTimeout 500]) \<and>
   analysisResult (fst (startAnalysis_resume engine (Response True (Parsed data)) s)) = data \<and>
   progress (fst (startAnalysis_resume engine (Response True (Parsed data)) s)) = 100 \<and>
   isLoading (fst (startAnalysis_resume engine (Response True (Parsed data)) s)) =
     isLoading s \<and>
   isLoading (timeout_callback
     (fst (startAnalysis_resume engine (Response True (Parsed data)) s))) = False \<and>
   (\<forall>t r. intervalRef s = Some t \<longrightarrow>
      progress_tick t r (fst (startAnalysis_resume engine (Response True (Parsed data)) s)) =
        fst (startAnalysis_resume engine (Response True (Parsed data)) s)) \<and>
   startAnalysis_resume engine (Response True (Unparseable msg)) s =
     (s\<lparr>timers := clearInterval (intervalRef s) (timers s), isLoading := False,
        progress := 0, isAnalyzing := False\<rparr>, [Alert (''Error: '' @ msg)])"
proof -
  have st: "startAnalysis_resume engine (Response True (Parsed data)) s =
     (s\<lparr>analysisResult := data, timers := clearInterval (intervalRef s) (timers s),
        progress := 100, isAnalyzing := False\<rparr>, [SetTimeout 500])"
    by (simp add: startAnalysis_resume_def finally_block_def)
  have tick:
    "progress_tick t r (fst (startAnalysis_resume engine (Response True (Parsed data)) s)) =
     fst (startAnalysis_resume engine (Response True (Parsed data)) s)"
    if "intervalRef s = Some t" for t r
  proof -
    from that have "t \<notin> set (clearInterval (intervalRef s) (timers s))"
      by (rule cleared_timer_not_live)
    then show ?thesis by (simp add: st progress_tick_def)
  qed
  have bad: "startAnalysis_resume engine (Response True (Unparseable msg)) s =
     (s\<lparr>timers := clearInterval (intervalRef s) (timers s), isLoading := False,
        progress := 0, isAnalyzing := False\<rparr>, [Alert (''Error: '' @ msg)])"
    by (simp add: startAnalysis_resume_def catch_block_def finally_block_def)
  from st tick bad show ?thesis by (simp add: timeout_callback_def)
qed

theorem success_handling_witness:
  "intervalRef in_flight = Some 1 \<and>
   analysisResult (fst (startAnalysis_resume sample_engine
     (Response True (Parsed sample_result)) in_flight)) = sample_result \<and>
   progress (fst (startAnalysis_resume sample_engine
     (Response True (Parsed sample_result)) in_flight)) = 100 \<and>
   isLoading (fst (startAnalysis_resume sample_engine
     (Response True (Parsed sample_result)) in_flight)) \<and>
   \<not> isLoading (timeout_callback (fst (startAnalysis_resume sample_engine
     (Response True (Parsed sample_result)) in_flight))) \<and>
   progress_tick 1 0.5 (fst (startAnalysis_resume sample_engine
     (Response True (Parsed sample_result)) in_flight)) =
   fst (startAnalysis_resume sample_engine (Response True (Parsed sample_result)) in_flight)"
proof -
  have h: "intervalRef in_flight = Some 1" by (simp add: in_flight_eq)
  have l: "isLoading in_flight" by (simp add: in_flight_eq)
  note f = success_handling [of sample_engine sample_result in_flight]
  from f h have "progress_tick 1 0.5 (fst (startAnalysis_resume sample_engine
     (Response True (Parsed sample_result)) in_flight)) =
     fst (startAnalysis_resume sample_engine (Response True (Parsed sample_result)) in_flight)"
    by blast
  with f h l show ?thesis by (simp add: timeout_callback_def)
qed

text \<open>
  Not every 2xx response ends with the result stored and the progress at 100: when
  the body is not JSON, \<open>response.json()\<close> throws inside the \<open>try\<close> block and the \<open>catch\<close>
  block runs.
\<close>

theorem success_status_unparseable_counterexample:
  "progress (fst (startAnalysis_resume sample_engine
     (Response True (Unparseable ''Unexpected end of JSON input'')) in_flight)) = 0 \<and>
   analysisResult (fst (startAnalysis_resume sample_engine
     (Response True (Unparseable ''Unexpected end of JSON input'')) in_flight)) = JNull \<and>
   \<not> isLoading (fst (startAnalysis_resume sample_engine
     (Response True (Unparseable ''Unexpected end of JSON input'')) in_flight)) \<and>
   snd (startAnalysis_resume sample_engine
     (Response True (Unparseable ''Unexpected end of JSON input'')) in_flight) =
     [Alert ''Error: Unexpected end of JSON input'']"
  by (simp add: in_flight_eq startAnalysis_resume_def catch_block_def finally_block_def)

text \<open>
  C7, as the code has it. In the upload widget an attempt cannot be removed or replaced
  while it is in progress: while the status is \<open>uploading\<close> the remove button and the drop
  zone are disabled, and a click or a drop leaves the state and its interval as they
  are. From any other state with a file selected, the remove button sets the status to
  \<open>idle\<close>, the progress to 0, no file and an empty error message. In the analysis flow,
  selecting another file while a request is in flight replaces the file and nothing
  else: the new file is the selected one, the timer is still live and ticks as before,
  the flags, the progress and the result stay as they are, and the response is handled
  as it would have been without the new selection. In particular a success response to
  the old attempt is stored as the result, with progress 100, beside the new file.
\<close>

theorem removal_or_replacement_in_progress:
  "(uploadStatus u = Uploading \<longrightarrow>
      remove_button_click u = (u, []) \<and>
      drop_event num_str maxSize disabled acceptedFiles rejectedFiles u = u) \<and>
   (selectedFile u \<noteq> None \<and> uploadStatus u \<noteq> Uploading \<longrightarrow>
      remove_button_click u =
        (u\<lparr>selectedFile := None, uploadProgress := 0, uploadStatus := Idle,
           errorMessage := []\<rparr>, [OnFileRemove])) \<and>
   handleFileChange (f # fs) s = s\<lparr>file := Some f\<rparr> \<and>
   handleFileChange [] s = s \<and>
   file (handleFileChange (f # fs) s) = Some f \<and>
   timers (handleFileChange files s) = timers s \<and>
   intervalRef (handleFileChange files s) = intervalRef s \<and>
   isAnalyzing (handleFileChange files s) = isAnalyzing s \<and>
   isLoading (handleFileChange files s) = isLoading s \<and>
   progress (handleFileChange files s) = progress s \<and>
   analysisResult (handleFileChange files s) = analysisResult s \<and>
   progress_tick t r (handleFileChange files s) = handleFileChange files (progress_tick t r s) \<and>
   startAnalysis_resume engine outcome (handleFileChange files s) =
     (handleFileChange files (fst (startAnalysis_resume engine outcome s)),
      snd (startAnalysis_resume engine outcome s)) \<and>
   analysisResult (fst (startAnalysis_resume engine (Response True (Parsed data))
     (handleFileChange files s))) = data \<and>
   progress (fst (startAnalysis_resume engine (Response True (Parsed data))
     (handleFileChange files s))) = 100 \<and>
   file (fst (startAnalysis_resume engine (Response True (Parsed data))
     (handleFileChange (f # fs) s))) = Some f"
proof (intro conjI impI)
  assume "uploadStatus u = Uploading"
  then show "remove_button_click u = (u, [])"
    and "drop_event num_str maxSize disabled acceptedFiles rejectedFiles u = u"
    by (simp_all add: remove_button_click_def drop_event_def)
next
  assume "selectedFile u \<noteq> None \<and> uploadStatus u \<noteq> Uploading"
  then show "remove_button_click u =
      (u\<lparr>selectedFile := None, uploadProgress := 0, uploadStatus := Idle,
         errorMessage := []\<rparr>, [OnFileRemove])"
    by (simp add: remove_button_click_def removeFile_def)
next
  show "handleFileChange (f # fs) s = s\<lparr>file := Some f\<rparr>"
    and "handleFileChange [] s = s"
    and "file (handleFileChange (f # fs) s) = Some f"
    by (simp_all add: handleFileChange_def)
next
  show "timers (handleFileChange files s) = timers s"
    and "intervalRef (handleFileChange files s) = intervalRef s"
    and "isAnalyzing (handleFileChange files s) = isAnalyzing s"
    and "isLoading (handleFileChange files s) = isLoading s"
    and "progress (handleFileChange files s) = progress s"
    and "analysisResult (handleFileChange files s) = analysisResult s"
    by (simp_all add: handleFileChange_def split: list.splits)
next
  show "progress_tick t r (handleFileChange files s) =
      handleFileChange files (progress_tick t r s)"
    by (simp add: handleFileChange_def progress_tick_def Let_def split: list.splits)
next
  show "startAnalysis_resume engine outcome (handleFileChange files s) =
     (handleFileChange files (fst (startAnalysis_resume engine outcome s)),
      snd (startAnalysis_resume engine outcome s))"
    by (simp add: handleFileChange_def startAnalysis_resume_def catch_block_def
        finally_block_def split: list.splits fetch_outcome.splits body.splits)
next
  show "analysisResult (fst (startAnalysis_resume engine (Response True (Parsed data))
      (handleFileChange files s))) = data"
    and "progress (fst (startAnalysis_resume engine (Response True (Parsed data))
      (handleFileChange files s))) = 100"
    and "file (fst (startAnalysis_resume engine (Response True (Parsed data))
      (handleFileChange (f # fs) s))) = Some f"
    by (simp_all add: handleFileChange_def startAnalysis_resume_def finally_block_def
        split: list.splits)
qed

lemma uploaded_eq:
  "uploaded =
     \<lparr>selectedFile = Some resume_pdf, uploadProgress = 100, uploadStatus = Success,
      errorMessage = [], intervals = []\<rparr>"
  by (simp add: uploaded_def uploading_def drop_event_def onDrop_def initial_upload_def
      interval_tick_def Let_def)

theorem removal_or_replacement_in_progress_witness:
  "uploadStatus uploading = Uploading \<and>
   remove_button_click uploading = (uploading, []) \<and>
   drop_event (\<lambda>x. ''10'') 10485760 False [other_pdf] [] uploading = uploading \<and>
   selectedFile uploaded \<noteq> None \<and> uploadStatus uploaded \<noteq> Uploading \<and>
   remove_button_click uploaded = (initial_upload, [OnFileRemove]) \<and>
   file (handleFileChange [other_pdf] in_flight) = Some other_pdf \<and>
   timers (handleFileChange [other_pdf] in_flight) = [1] \<and>
   progress (progress_tick 1 0.95 (handleFileChange [other_pdf] in_flight)) = 9 \<and>
   analysisResult (fst (startAnalysis_resume sample_engine
     (Response True (Parsed sample_result)) (handleFileChange [other_pdf] in_flight))) =
     sample_result \<and>
   progress (fst (startAnalysis_resume sample_engine
     (Response True (Parsed sample_result)) (handleFileChange [other_pdf] in_flight))) = 100 \<and>
   file (fst (startAnalysis_resume sample_engine
     (Response True (Parsed sample_result)) (handleFileChange [other_pdf] in_flight))) =
     Some other_pdf"
proof -
  have h1: "uploadStatus uploading = Uploading"
    by (simp add: uploading_def drop_event_def onDrop_def initial_upload_def)
  have h2: "selectedFile uploaded \<noteq> None \<and> uploadStatus uploaded \<noteq> Uploading"
    by (simp add: uploaded_eq)
  note a = removal_or_replacement_in_progress [of uploading "\<lambda>x. ''10''" 10485760 False
      "[other_pdf]" "[]" other_pdf "[]" in_flight "[other_pdf]" 1 "0.95" sample_engine
      "Response True (Parsed sample_result)" sample_result]
  note b = removal_or_replacement_in_progress [of uploaded "\<lambda>x. ''10''" 10485760 False
      "[other_pdf]" "[]" other_pdf "[]" in_flight "[other_pdf]" 1 "0.95" sample_engine
      "Response True (Parsed sample_result)" sample_result]
  from a h1 have w1: "remove_button_click uploading = (uploading, []) \<and>
      drop_event (\<lambda>x. ''10'') 10485760 False [other_pdf] [] uploading = uploading"
    by blast
  from b h2 have "remove_button_click uploaded =
      (uploaded\<lparr>selectedFile := None, uploadProgress := 0, uploadStatus := Idle,
         errorMessage := []\<rparr>, [OnFileRemove])"
    by blast
  then have w2: "remove_button_click uploaded = (initial_upload, [OnFileRemove])"
    by (simp add: uploaded_eq initial_upload_def)
  from a have w3: "file (handleFileChange [other_pdf] in_flight) = Some other_pdf"
    by blast
  from a have w4: "timers (handleFileChange [other_pdf] in_flight) = [1]"
    by (simp add: in_flight_eq)
  from a have "progress_tick 1 0.95 (handleFileChange [other_pdf] in_flight) =
      handleFileChange [other_pdf] (progress_tick 1 0.95 in_flight)"
    by blast
  then have w5: "progress (progress_tick 1 0.95 (handleFileChange [other_pdf] in_flight)) = 9"
    by (simp add: in_flight_eq handleFileChange_def progress_tick_def Let_def)
  from a have w6: "analysisResult (fst (startAnalysis_resume sample_engine
      (Response True (Parsed sample_result)) (handleFileChange [other_pdf] in_flight))) =
      sample_result \<and>
    progress (fst (startAnalysis_resume sample_engine
      (Response True (Parsed sample_result)) (handleFileChange [other_pdf] in_flight))) = 100 \<and>
    file (fst (startAnalysis_resume sample_engine
      (Response True (Parsed sample_result)) (handleFileChange [other_pdf] in_flight))) =
      Some other_pdf"
    by blast
  from h1 h2 w1 w2 w3 w4 w5 w6 show ?thesis by simp
qed

text \<open>
  Replacing the selection while the request is in flight cancels nothing and discards
  nothing: the timer of the old attempt is still live, and the response to the old
  file is stored as the result, with progress 100, beside the new file.
\<close>

theorem stale_response_counterexample:
  "isAnalyzing (handleFileChange [other_pdf] in_flight) \<and>
   file (handleFileChange [other_pdf] in_flight) = Some other_pdf \<and>
   timers (handleFileChange [other_pdf] in_flight) = [1] \<and>
   analysisResult (fst (startAnalysis_resume sample_engine
     (Response True (Parsed sample_result)) (handleFileChange [other_pdf] in_flight))) =
     sample_result \<and>
   sample_result \<noteq> JNull \<and>
   progress (fst (startAnalysis_resume sample_engine
     (Response True (Parsed sample_result)) (handleFileChange [other_pdf] in_flight))) = 100"
  by (simp add: in_flight_eq handleFileChange_def startAnalysis_resume_def finally_block_def
      sample_result_def)

end
